theory Spec2Isabelle
  imports Complex_Main "HOL-Library.Sublist"
begin

section \<open>Queue wait time estimator (queue_wait_time.py)\<close>

text \<open>
  Modelling conventions.
  \<^item> A Python \<open>float\<close> is a \<open>real\<close>: the arithmetic is the exact one, rounding of
    IEEE doubles is not modelled.
  \<^item> A \<open>datetime\<close> is an \<open>int\<close>, the number of microseconds since 0001-01-01 00:00:00
    (the resolution of \<open>datetime\<close>); a \<open>timedelta\<close> is an \<open>int\<close> number of microseconds.
  \<^item> The string constants for trends, confidence labels and anomaly texts are kept as
    strings, as the code has them.
  \<^item> A method of a class takes the object (\<open>self\<close>) as its last argument and returns its
    result together with the object after the call.
\<close>

subsection \<open>numpy and list slicing\<close>

text \<open>\<open>np.mean\<close> of a list of floats. On the empty list numpy gives \<open>nan\<close>; the code
  never calls it there (every call site is guarded by a length test).\<close>

definition np_mean :: "real list \<Rightarrow> real" where
  "np_mean xs = sum_list xs / real (length xs)"

text \<open>\<open>np.std\<close>: the population standard deviation,
  \<open>sqrt (mean (abs (x - mean x) ** 2))\<close>.\<close>

definition np_std :: "real list \<Rightarrow> real" where
  "np_std xs = sqrt (np_mean (map (\<lambda>x. \<bar>x - np_mean xs\<bar> ^ 2) xs))"

text \<open>The slices \<open>xs[-n:]\<close> and \<open>xs[:-n]\<close> for a positive literal \<open>n\<close>: a list shorter
  than \<open>n\<close> gives the whole list and the empty list, as the truncating subtraction does.\<close>

definition last_n :: "nat \<Rightarrow> 'a list \<Rightarrow> 'a list" where
  "last_n n xs = drop (length xs - n) xs"

definition but_last_n :: "nat \<Rightarrow> 'a list \<Rightarrow> 'a list" where
  "but_last_n n xs = take (length xs - n) xs"

subsection \<open>datetime and timedelta\<close>

text \<open>\<open>timedelta.seconds\<close>: a timedelta is normalised to days, seconds (0 to 86399)
  and microseconds (0 to 999999); the attribute is the middle field only.\<close>

definition seconds :: "int \<Rightarrow> int" where
  "seconds d = (d mod 86400000000) div 1000000"

subsection \<open>WaitTimeEstimator\<close>

record WaitTimeEstimator =
  window_size :: int
  service_rates :: "real list"
  predictions :: "(real \<times> string) list"
  confidence_scores :: "real list"

definition WaitTimeEstimator_init :: "int \<Rightarrow> WaitTimeEstimator" where
  "WaitTimeEstimator_init w =
     \<lparr>window_size = w, service_rates = [], predictions = [], confidence_scores = []\<rparr>"

text \<open>The loop \<open>for i in range(1, len(timestamps))\<close> collecting
  \<open>(timestamps[i] - timestamps[i-1]).seconds / 60\<close>.\<close>

fun intervals :: "int list \<Rightarrow> real list" where
  "intervals (a # b # ts) = real_of_int (seconds (b - a)) / 60 # intervals (b # ts)"
| "intervals ts = []"

definition calculate_service_rate ::
  "int list \<Rightarrow> WaitTimeEstimator \<Rightarrow> (real \<times> string) \<times> WaitTimeEstimator" where
  "calculate_service_rate timestamps self =
     (if length timestamps < 2 then ((0, ''stable''), self)
      else
        let avg_interval = np_mean (intervals timestamps);
            current_rate = (if avg_interval > 0 then 1 / avg_interval else 0);
            self1 = self\<lparr>service_rates := service_rates self @ [current_rate]\<rparr>;
            trend =
              (if length (service_rates self1) < 3 then ''stable''
               else
                 let recent_avg = np_mean (last_n 3 (service_rates self1));
                     historical_avg =
                       (if length (service_rates self1) > 3
                        then np_mean (but_last_n 3 (service_rates self1))
                        else recent_avg)
                 in if recent_avg > historical_avg * 1.1 then ''speeding_up''
                    else if recent_avg < historical_avg * 0.9 then ''slowing_down''
                    else ''stable'')
        in ((current_rate, trend), self1))"

text \<open>The local variable \<open>estimated_queue_length\<close> after the adjustment by trend.\<close>

definition estimated_queue_length :: "string \<Rightarrow> real" where
  "estimated_queue_length trend =
     (if trend = ''slowing_down'' then 5 * 1.5
      else if trend = ''speeding_up'' then 5 * 0.7
      else 5)"

definition estimate_wait_time ::
  "real \<Rightarrow> string \<Rightarrow> WaitTimeEstimator \<Rightarrow> (real \<times> string) \<times> WaitTimeEstimator" where
  "estimate_wait_time service_rate trend self =
     (if service_rate = 0 then ((0, ''Low''), self)
      else
        let estimated_wait = estimated_queue_length trend / service_rate;
            confidence =
              (if length (service_rates self) < 5 then ''Low''
               else if np_std (last_n 5 (service_rates self)) < 0.1 then ''High''
               else ''Medium'')
        in ((estimated_wait, confidence), self))"

definition detect_anomalies ::
  "real list \<Rightarrow> WaitTimeEstimator \<Rightarrow> string option \<times> WaitTimeEstimator" where
  "detect_anomalies rates self =
     (if length rates < 5 then (None, self)
      else
        let recent = last_n 5 rates;
            historical = (if length rates > 5 then but_last_n 5 rates else recent);
            recent_std = np_std recent;
            historical_std = (if length historical > 1 then np_std historical else recent_std)
        in if recent_std > historical_std * 2
           then (Some ''High service variability detected - possible staff interruptions'', self)
           else if np_mean recent < np_mean historical * 0.5
           then (Some ''Major slowdown detected - possible system issue'', self)
           else (None, self))"

subsection \<open>The rate as the specification words it\<close>

text \<open>The specification's intervals are the elapsed times between consecutive
  completions, here in minutes; the rate is the inverse of their mean, or 0 when the
  mean is 0. These two definitions follow the specification, not the code, and are
  used only to compare the code with it.\<close>

fun elapsed_intervals :: "int list \<Rightarrow> real list" where
  "elapsed_intervals (a # b # ts) = real_of_int (b - a) / 60000000 # elapsed_intervals (b # ts)"
| "elapsed_intervals ts = []"

definition spec_rate :: "int list \<Rightarrow> real" where
  "spec_rate ts =
     (if np_mean (elapsed_intervals ts) = 0 then 0 else 1 / np_mean (elapsed_intervals ts))"

text \<open>Windows on which \<open>timedelta.seconds\<close> loses nothing: every gap is a whole
  number of seconds, not negative and shorter than a day.\<close>

fun whole_second_gaps :: "int list \<Rightarrow> bool" where
  "whole_second_gaps (a # b # ts) =
     (0 \<le> b - a \<and> b - a < 86400000000 \<and> (b - a) mod 1000000 = 0 \<and> whole_second_gaps (b # ts))"
| "whole_second_gaps ts = True"

subsection \<open>QueueSimulator\<close>

datatype error = OverflowError | IndexError

record completion =
  timestamp :: int
  customer_id :: int
  actual_service_time :: real

record QueueSimulator =
  hours :: int
  base_service_time :: real
  service_completions :: "completion list"
  actual_wait_times :: "real list"

definition QueueSimulator_init :: "int \<Rightarrow> real \<Rightarrow> QueueSimulator" where
  "QueueSimulator_init h b =
     \<lparr>hours = h, base_service_time = b, service_completions = [], actual_wait_times = []\<rparr>"

text \<open>The \<open>if\<close>/\<open>elif\<close> chain over \<open>self.patterns\<close>: the service multiplier and the
  number of customers of an hour.\<close>

definition regime :: "int \<Rightarrow> real \<times> nat" where
  "regime hour =
     (if 0 \<le> hour \<and> hour < 2 then (0.8, 15)
      else if 2 \<le> hour \<and> hour < 5 then (1.5, 8)
      else if 5 \<le> hour \<and> hour < 7 then (1.0, 12)
      else (0.9, 14))"

text \<open>\<open>timedelta(minutes=m)\<close> rounds to the nearest microsecond, ties to even, and
  raises \<open>OverflowError\<close> beyond 999999999 days.\<close>

definition round_half_even :: "real \<Rightarrow> int" where
  "round_half_even x =
     (let f = \<lfloor>x\<rfloor>; d = x - real_of_int f
      in if d < 1/2 then f else if d > 1/2 then f + 1 else if even f then f else f + 1)"

definition timedelta_minutes :: "real \<Rightarrow> error + int" where
  "timedelta_minutes m =
     (let us = round_half_even (m * 60000000)
      in if - 999999999 \<le> us div 86400000000 \<and> us div 86400000000 \<le> 999999999
         then Inr us else Inl OverflowError)"

text \<open>\<open>datetime + timedelta\<close> raises \<open>OverflowError\<close> outside the years 1 to 9999.\<close>

definition datetime_add :: "int \<Rightarrow> int \<Rightarrow> error + int" where
  "datetime_add t d =
     (if 0 \<le> t + d \<and> t + d \<le> 315537897599999999 then Inr (t + d) else Inl OverflowError)"

text \<open>The random draws are a parameter: \<open>draws k\<close> is the pair of the values that
  \<open>random.uniform(0.7, 1.3)\<close> and \<open>random.random()\<close> return for customer \<open>k\<close>.
  The state of the loops is \<open>(current_time, customer_id, self)\<close>.\<close>

type_synonym gen_state = "int \<times> int \<times> QueueSimulator"

text \<open>The service time of customer \<open>cid\<close>: the base time scaled by the regime and the
  drawn complexity, plus 10 minutes when the interruption draw is below 0.05.\<close>

definition service_time ::
  "(int \<Rightarrow> real \<times> real) \<Rightarrow> real \<Rightarrow> int \<Rightarrow> QueueSimulator \<Rightarrow> real" where
  "service_time draws service_multiplier cid self =
     (let complexity = fst (draws cid);
          t = base_service_time self * service_multiplier * complexity
      in if snd (draws cid) < 0.05 then t + 10 else t)"

text \<open>The body of the inner loop: one customer. \<open>self.service_completions[-2]\<close> is
  read only when \<open>customer_id > 1\<close>.\<close>

definition serve_customer ::
  "(int \<Rightarrow> real \<times> real) \<Rightarrow> real \<Rightarrow> gen_state \<Rightarrow> error + gen_state" where
  "serve_customer draws service_multiplier st =
     (case st of (current_time, cid, self) \<Rightarrow>
        case timedelta_minutes (service_time draws service_multiplier cid self) of
          Inl e \<Rightarrow> Inl e
        | Inr delta \<Rightarrow>
            (case datetime_add current_time delta of
               Inl e \<Rightarrow> Inl e
             | Inr current_time1 \<Rightarrow>
                 let completions = service_completions self @
                       [\<lparr>timestamp = current_time1, customer_id = cid,
                         actual_service_time =
                           service_time draws service_multiplier cid self\<rparr>]
                 in if cid > 1
                    then
                      (if length completions < 2 then Inl IndexError
                       else
                         let wait = real_of_int (seconds (current_time1 -
                               timestamp (completions ! (length completions - 2)))) / 60
                         in Inr (current_time1, cid + 1,
                              self\<lparr>service_completions := completions,
                                   actual_wait_times := actual_wait_times self @ [wait]\<rparr>))
                    else Inr (current_time1, cid + 1,
                              self\<lparr>service_completions := completions\<rparr>)))"

text \<open>\<open>for _ in range(customers_per_hour)\<close>.\<close>

fun serve_customers ::
  "nat \<Rightarrow> (int \<Rightarrow> real \<times> real) \<Rightarrow> real \<Rightarrow> gen_state \<Rightarrow> error + gen_state" where
  "serve_customers 0 draws service_multiplier st = Inr st"
| "serve_customers (Suc n) draws service_multiplier st =
     (case serve_customer draws service_multiplier st of
        Inl e \<Rightarrow> Inl e
      | Inr st1 \<Rightarrow> serve_customers n draws service_multiplier st1)"

text \<open>\<open>for hour in range(self.hours)\<close>, over the list of the hours.\<close>

fun simulate_hours ::
  "int list \<Rightarrow> (int \<Rightarrow> real \<times> real) \<Rightarrow> gen_state \<Rightarrow> error + gen_state" where
  "simulate_hours [] draws st = Inr st"
| "simulate_hours (hour # hs) draws st =
     (case serve_customers (snd (regime hour)) draws (fst (regime hour)) st of
        Inl e \<Rightarrow> Inl e
      | Inr st1 \<Rightarrow> simulate_hours hs draws st1)"

text \<open>\<open>start_time\<close> is \<open>datetime.now().replace(hour=8, minute=0, second=0)\<close>, a
  parameter of the model. The data frame returned is the list of the completions.\<close>

definition generate_synthetic_data ::
  "int \<Rightarrow> (int \<Rightarrow> real \<times> real) \<Rightarrow> QueueSimulator \<Rightarrow> error + (completion list \<times> QueueSimulator)" where
  "generate_synthetic_data start_time draws self =
     (case simulate_hours [0..hours self - 1] draws (start_time, 1, self) of
        Inl e \<Rightarrow> Inl e
      | Inr (current_time, cid, self1) \<Rightarrow> Inr (service_completions self1, self1))"

text \<open>Draws used in the examples: complexity 1, no interruption.\<close>

definition steady_draws :: "int \<Rightarrow> real \<times> real" where
  "steady_draws k = (1, 1/2)"

subsection \<open>What a stretch of the simulation does to the loop state\<close>

text \<open>\<open>grows st st1 new\<close>: from the loop state \<open>st\<close> to \<open>st1\<close> the completions
  \<open>new\<close> were appended, the base service time was kept, the customer ids of \<open>new\<close>
  count up from the customer id of \<open>st\<close>, and the clock of \<open>st1\<close> is the timestamp of
  the last new completion (the clock of \<open>st\<close> when there is none). It is used in the
  proofs only.\<close>

definition grows :: "gen_state \<Rightarrow> gen_state \<Rightarrow> completion list \<Rightarrow> bool" where
  "grows st st1 new =
     (case st of (t, c, s) \<Rightarrow> case st1 of (t1, c1, s1) \<Rightarrow>
        service_completions s1 = service_completions s @ new
        \<and> base_service_time s1 = base_service_time s
        \<and> c1 = c + int (length new)
        \<and> map customer_id new = map (\<lambda>i. c + int i) [0..<length new]
        \<and> t1 = last (t # map timestamp new))"

section \<open>Properties\<close>

text \<open>
  C1. For every service rate \<open>rate > 0\<close> and every trend, \<open>estimate_wait_time\<close> returns
  the wait \<open>(5 * m) / rate\<close>, where \<open>m\<close> is 1.5 for \<open>slowing_down\<close>, 0.7 for
  \<open>speeding_up\<close> and 1.0 for \<open>stable\<close> (and for any other string); at rate 0.5 and
  trend \<open>slowing_down\<close> the adjusted queue length is 7.5 and the wait is 15.0 minutes.
\<close>

theorem estimate_wait_time_value:
  "(0 < rate \<longrightarrow>
      fst (fst (estimate_wait_time rate trend self)) =
        (5 * (if trend = ''slowing_down'' then 1.5
              else if trend = ''speeding_up'' then 0.7
              else 1.0)) / rate)
   \<and> estimated_queue_length ''slowing_down'' = 7.5
   \<and> fst (fst (estimate_wait_time 0.5 ''slowing_down'' self)) = 15.0"
  by (simp add: estimate_wait_time_def estimated_queue_length_def Let_def)

theorem estimate_wait_time_value_witness:
  "(0::real) < 1/4
   \<and> fst (fst (estimate_wait_time (1/4) ''speeding_up'' (WaitTimeEstimator_init 10))) = 14
   \<and> fst (fst (estimate_wait_time (1/4) ''stable'' (WaitTimeEstimator_init 10))) = 20
   \<and> fst (fst (estimate_wait_time (1/4) ''slowing_down'' (WaitTimeEstimator_init 10))) = 30"
  using estimate_wait_time_value [of "1/4" "''speeding_up''" "WaitTimeEstimator_init 10"]
    estimate_wait_time_value [of "1/4" "''stable''" "WaitTimeEstimator_init 10"]
    estimate_wait_time_value [of "1/4" "''slowing_down''" "WaitTimeEstimator_init 10"]
  by simp

text \<open>
  C5. For every trend and every rate history, \<open>estimate_wait_time\<close> at rate 0 returns
  the wait 0 and the confidence \<open>Low\<close>.
\<close>

theorem estimate_wait_time_zero_rate:
  "fst (estimate_wait_time 0 trend self) = (0, ''Low'')"
  by (simp add: estimate_wait_time_def)


subsection \<open>Facts about the numeric helpers\<close>



lemma np_mean_nonneg: "\<forall>r\<in>set xs. 0 \<le> r \<Longrightarrow> 0 \<le> np_mean xs"
  by (simp add: np_mean_def sum_list_nonneg)

lemma np_std_less_tenth:
  "np_std xs < 0.1 \<longleftrightarrow> np_mean (map (\<lambda>x. \<bar>x - np_mean xs\<bar> ^ 2) xs) < 0.01"
proof -
  have "sqrt (0.01::real) = 0.1"
    by (rule real_sqrt_unique) (simp_all add: power2_eq_square)
  then show ?thesis
    unfolding np_std_def by (metis real_sqrt_less_iff)
qed

subsection \<open>The service rate\<close>

text \<open>What \<open>calculate_service_rate\<close> returns, read off the code: a short window gives
  \<open>(0, stable)\<close>; otherwise the rate is the inverse of the mean of the \<open>.seconds / 60\<close>
  values, or 0 when that mean is 0.\<close>

lemma calculate_service_rate_short:
  "length timestamps < 2 \<Longrightarrow> fst (calculate_service_rate timestamps self) = (0, ''stable'')"
  by (simp add: calculate_service_rate_def)

lemma calculate_service_rate_rate:
  "2 \<le> length timestamps \<Longrightarrow>
   fst (fst (calculate_service_rate timestamps self)) =
     (if np_mean (intervals timestamps) > 0 then 1 / np_mean (intervals timestamps) else 0)"
  by (simp add: calculate_service_rate_def Let_def)

text \<open>On a window whose gaps are whole seconds, not negative and shorter than a day, the
  code's intervals are the elapsed times, and the rate is the specification's.\<close>

lemma intervals_whole_second_gaps:
  "whole_second_gaps ts \<Longrightarrow> intervals ts = elapsed_intervals ts"
proof (induction ts rule: intervals.induct)
  case (1 a b ts)
  from "1.prems" have g: "0 \<le> b - a" "b - a < 86400000000" "(b - a) mod 1000000 = 0"
    and rest: "whole_second_gaps (b # ts)"
    by simp_all
  from g(1,2) have "(b - a) mod 86400000000 = b - a"
    by simp
  moreover from g(3) have "real_of_int ((b - a) div 1000000) * 1000000 = real_of_int (b - a)"
    by (metis dvd_div_mult_self mod_0_imp_dvd of_int_mult of_int_numeral)
  ultimately have "real_of_int (seconds (b - a)) / 60 = real_of_int (b - a) / 60000000"
    by (simp add: seconds_def field_simps)
  with "1.IH" rest show ?case
    by simp
qed simp_all

lemma elapsed_intervals_nonneg:
  "whole_second_gaps ts \<Longrightarrow> \<forall>x\<in>set (elapsed_intervals ts). 0 \<le> x"
  by (induction ts rule: elapsed_intervals.induct) simp_all

lemma calculate_service_rate_whole_second_gaps:
  assumes "2 \<le> length timestamps" and "whole_second_gaps timestamps"
  shows "fst (fst (calculate_service_rate timestamps self)) = spec_rate timestamps"
proof -
  have "0 \<le> np_mean (elapsed_intervals timestamps)"
    using assms(2) by (intro np_mean_nonneg elapsed_intervals_nonneg)
  then show ?thesis
    using assms
    by (auto simp: calculate_service_rate_rate intervals_whole_second_gaps spec_rate_def)
qed

text \<open>
  C2. A window of fewer than 2 timestamps gives rate 0 and trend \<open>stable\<close>
  (\<open>calculate_service_rate_short\<close>); a longer window should give the inverse of the mean
  interval between consecutive completions. The code takes \<open>timedelta.seconds\<close> for the
  interval, which drops the days and the microseconds of the gap. Two completions at
  08:00:00 and 08:01:30.5 of 2024-01-01 are 90.5 seconds apart: the code computes the
  rate \<open>2/3\<close> per minute (an interval of 1.5 minutes), the elapsed time gives \<open>120/181\<close>.
\<close>

theorem calculate_service_rate_drops_microseconds:
  "fst (fst (calculate_service_rate [63839692800000000, 63839692890500000]
       (WaitTimeEstimator_init 10))) = 2/3
   \<and> spec_rate [63839692800000000, 63839692890500000] = 120/181"
  by (simp add: calculate_service_rate_def Let_def np_mean_def seconds_def spec_rate_def)

text \<open>The same with a gap of one day and five minutes: the code sees five minutes.\<close>

lemma calculate_service_rate_drops_days:
  "fst (fst (calculate_service_rate [63839692800000000, 63839779500000000]
       (WaitTimeEstimator_init 10))) = 1/5
   \<and> spec_rate [63839692800000000, 63839779500000000] = 1/1445"
  by (simp add: calculate_service_rate_def Let_def np_mean_def seconds_def spec_rate_def)

text \<open>
  C3 (as amended). A call of \<open>calculate_service_rate\<close> with a window of at least 2
  timestamps appends the rate it returns to \<open>self.service_rates\<close>, which is then exactly
  one element longer; a call with a window of 0 or 1 timestamps returns before the
  append and leaves the estimator unchanged.
\<close>

theorem calculate_service_rate_appends:
  "(2 \<le> length timestamps \<longrightarrow>
      service_rates (snd (calculate_service_rate timestamps self)) =
        service_rates self @ [fst (fst (calculate_service_rate timestamps self))])
   \<and> (length timestamps < 2 \<longrightarrow>
      snd (calculate_service_rate timestamps self) = self)"
  by (simp add: calculate_service_rate_def Let_def)

theorem calculate_service_rate_appends_witness:
  "service_rates (snd (calculate_service_rate [0, 300000000, 600000000]
       (WaitTimeEstimator_init 10))) = [1/5]
   \<and> snd (calculate_service_rate [0] (WaitTimeEstimator_init 10)) = WaitTimeEstimator_init 10"
  using calculate_service_rate_appends [of "[0, 300000000, 600000000]" "WaitTimeEstimator_init 10"]
    calculate_service_rate_appends [of "[0]" "WaitTimeEstimator_init 10"]
  by (simp add: calculate_service_rate_def Let_def np_mean_def seconds_def
      WaitTimeEstimator_init_def)

text \<open>The claim as written (every call, also on a window of length 0, makes the history
  one element longer) fails on the empty window.\<close>

theorem calculate_service_rate_appends_counterexample:
  "\<not> length (service_rates (snd (calculate_service_rate [] (WaitTimeEstimator_init 10))))
       = length (service_rates (WaitTimeEstimator_init 10)) + 1"
  by (simp add: calculate_service_rate_def)



subsection \<open>The confidence of an estimate\<close>



text \<open>A history whose last 5 rates vary (standard deviation \<open>sqrt 0.24\<close>) gives
  \<open>Medium\<close>.\<close>

lemma estimate_wait_time_medium_example:
  "snd (fst (estimate_wait_time (1/2) ''stable''
       ((WaitTimeEstimator_init 10)\<lparr>service_rates := [0, 1, 0, 1, 0]\<rparr>))) = ''Medium''"
  using np_std_less_tenth [of "[0, 1, 0, 1, 0]"]
  by (simp add: estimate_wait_time_def Let_def WaitTimeEstimator_init_def last_n_def
      np_mean_def power2_eq_square)

subsection \<open>Anomalies\<close>

text \<open>
  C7. On a list of fewer than 5 rates \<open>detect_anomalies\<close> reports no anomaly.
\<close>

theorem detect_anomalies_insufficient:
  "length rates < 5 \<Longrightarrow> fst (detect_anomalies rates self) = None"
  by (simp add: detect_anomalies_def)

theorem detect_anomalies_insufficient_witness:
  "length [1, 2, 3, 4 :: real] < 5
   \<and> fst (detect_anomalies [1, 2, 3, 4] (WaitTimeEstimator_init 10)) = None"
  using detect_anomalies_insufficient [of "[1, 2, 3, 4]" "WaitTimeEstimator_init 10"]
  by simp




subsection \<open>The histories only grow\<close>

text \<open>
  C9. After a call of \<open>calculate_service_rate\<close> the old rate history and the old
  prediction history are prefixes of the new ones; \<open>estimate_wait_time\<close> and
  \<open>detect_anomalies\<close> leave both histories as they were.
\<close>

theorem histories_append_only:
  "prefix (service_rates self) (service_rates (snd (calculate_service_rate timestamps self)))
   \<and> prefix (predictions self) (predictions (snd (calculate_service_rate timestamps self)))
   \<and> service_rates (snd (estimate_wait_time rate trend self)) = service_rates self
   \<and> predictions (snd (estimate_wait_time rate trend self)) = predictions self
   \<and> service_rates (snd (detect_anomalies rates self)) = service_rates self
   \<and> predictions (snd (detect_anomalies rates self)) = predictions self"
  by (simp add: calculate_service_rate_def estimate_wait_time_def detect_anomalies_def Let_def)

subsection \<open>The generated completions\<close>

lemma round_half_even_pos:
  assumes "1/2 < x"
  shows "1 \<le> round_half_even x"
proof -
  have f0: "0 \<le> \<lfloor>x\<rfloor>" using assms by simp
  have small: "1 \<le> \<lfloor>x\<rfloor>" if "x - real_of_int \<lfloor>x\<rfloor> \<le> 1/2"
  proof -
    from that assms have "0 < real_of_int \<lfloor>x\<rfloor>" by linarith
    then show ?thesis by linarith
  qed
  show ?thesis
    unfolding round_half_even_def Let_def using f0 small by auto
qed

lemma grows_refl: "grows st st []"
  by (simp add: grows_def split: prod.splits)

lemma sorted_wrt_less_last:
  "sorted_wrt (<) (a # xs) \<Longrightarrow> \<forall>x\<in>set (a # xs). x \<le> last (a # xs)"
  for a :: int
proof (induction xs arbitrary: a)
  case Nil
  then show ?case by simp
next
  case (Cons b xs)
  from Cons.prems have "a < b" and "sorted_wrt (<) (b # xs)" by simp_all
  with Cons.IH [of b] show ?case by fastforce
qed

lemma sorted_wrt_less_append:
  fixes a :: int
  assumes "sorted_wrt (<) (a # xs)" and "sorted_wrt (<) (last (a # xs) # ys)"
  shows "sorted_wrt (<) (a # xs @ ys)"
proof -
  have "\<forall>x\<in>set (a # xs). \<forall>y\<in>set ys. x < y"
    using sorted_wrt_less_last [OF assms(1)] assms(2) by fastforce
  with assms have "sorted_wrt (<) ((a # xs) @ ys)"
    unfolding sorted_wrt_append by simp
  then show ?thesis by simp
qed

lemma map_ids_append:
  assumes "map f xs = map (\<lambda>i. c + int i) [0..<length xs]"
    and "map f ys = map (\<lambda>i. (c + int (length xs)) + int i) [0..<length ys]"
  shows "map f (xs @ ys) = map (\<lambda>i. c + int i) [0..<length (xs @ ys)]"
proof -
  have "[0..<length xs + length ys] = [0..<length xs] @ [length xs..<length xs + length ys]"
    by (rule upt_add_eq_append) simp
  also have "[length xs..<length xs + length ys] = map (\<lambda>i. i + length xs) [0..<length ys]"
    using map_add_upt [of "length xs" "length ys"] by (simp only: add.commute)
  finally have "map (\<lambda>i. c + int i) [0..<length (xs @ ys)] =
      map (\<lambda>i. c + int i) [0..<length xs] @
      map (\<lambda>i. c + int (length xs) + int i) [0..<length ys]"
    by (simp add: o_def add.assoc add.commute)
  with assms show ?thesis
    by simp
qed

lemma last_chain:
  "last (last (t # xs) # ys) = last (t # xs @ ys)"
  by (cases ys) simp_all

lemma grows_trans:
  assumes "grows st st1 xs" and "grows st1 st2 ys"
  shows "grows st st2 (xs @ ys)"
proof -
  obtain t c s t1 c1 s1 t2 c2 s2
    where st: "st = (t, c, s)" "st1 = (t1, c1, s1)" "st2 = (t2, c2, s2)"
    by (metis prod_cases3)
  from assms st have a:
    "service_completions s1 = service_completions s @ xs"
    "base_service_time s1 = base_service_time s"
    "c1 = c + int (length xs)"
    "map customer_id xs = map (\<lambda>i. c + int i) [0..<length xs]"
    "t1 = last (t # map timestamp xs)"
    and b:
    "service_completions s2 = service_completions s1 @ ys"
    "base_service_time s2 = base_service_time s1"
    "c2 = c1 + int (length ys)"
    "map customer_id ys = map (\<lambda>i. c1 + int i) [0..<length ys]"
    "t2 = last (t1 # map timestamp ys)"
    by (simp_all add: grows_def)
  have ids: "map customer_id (xs @ ys) = map (\<lambda>i. c + int i) [0..<length (xs @ ys)]"
    using a(4) b(4) unfolding a(3) by (rule map_ids_append)
  have t2: "t2 = last (t # map timestamp (xs @ ys))"
    using a(5) b(5) by (simp only: last_chain map_append)
  show ?thesis
    unfolding st grows_def using a(1,2,3) b(1,2,3) ids t2 by simp
qed



lemma serve_customer_grows:
  assumes "serve_customer draws m st = Inr st1"
  shows "\<exists>e. grows st st1 [e]
     \<and> fst st1 = fst st + round_half_even
         (service_time draws m (fst (snd st)) (snd (snd st)) * 60000000)"
proof -
  obtain t c s where st: "st = (t, c, s)" by (metis prod_cases3)
  show ?thesis
    using assms unfolding st serve_customer_def Let_def timedelta_minutes_def datetime_add_def
    by (auto simp: grows_def split: sum.splits if_splits)
qed

lemma service_time_lower:
  assumes "0 \<le> base_service_time s" and "4/5 \<le> m" and "7/10 \<le> fst (draws c)"
  shows "base_service_time s * (14/25) \<le> service_time draws m c s"
proof -
  have "(4/5) * (7/10) \<le> m * fst (draws c)"
    using assms(2,3) by (intro mult_mono) simp_all
  then have "base_service_time s * ((4/5) * (7/10)) \<le> base_service_time s * (m * fst (draws c))"
    using assms(1) by (rule mult_left_mono)
  then show ?thesis
    by (simp add: service_time_def Let_def mult.assoc)
qed

lemma regime_multiplier: "4/5 \<le> fst (regime hour)"
  by (simp add: regime_def)

lemma serve_customer_advances:
  assumes "serve_customer draws m st = Inr st1"
    and "1/2 < base_service_time (snd (snd st)) * 33600000"
    and "4/5 \<le> m"
    and "\<forall>k. 7/10 \<le> fst (draws k)"
  shows "fst st < fst st1"
proof -
  let ?x = "service_time draws m (fst (snd st)) (snd (snd st))"
  from assms(2) have "0 \<le> base_service_time (snd (snd st))"
    by simp
  then have "base_service_time (snd (snd st)) * (14/25) \<le> ?x"
    using assms(3,4) by (intro service_time_lower) simp_all
  with assms(2) have "1/2 < ?x * 60000000"
    by simp
  then have "1 \<le> round_half_even (?x * 60000000)"
    by (rule round_half_even_pos)
  moreover from serve_customer_grows [OF assms(1)]
  have "fst st1 = fst st + round_half_even (?x * 60000000)"
    by blast
  ultimately show ?thesis
    by simp
qed

lemma grows_base: "grows st st1 new \<Longrightarrow>
  base_service_time (snd (snd st1)) = base_service_time (snd (snd st))"
  by (auto simp: grows_def split: prod.splits)

lemma grows_time: "grows st st1 new \<Longrightarrow> fst st1 = last (fst st # map timestamp new)"
  by (auto simp: grows_def split: prod.splits)

lemma ascending_trans:
  assumes "grows st st1 xs"
    and "sorted_wrt (<) (fst st # map timestamp xs)"
    and "sorted_wrt (<) (fst st1 # map timestamp ys)"
  shows "sorted_wrt (<) (fst st # map timestamp (xs @ ys))"
  using sorted_wrt_less_append [of "fst st" "map timestamp xs" "map timestamp ys"]
    assms(2,3) grows_time [OF assms(1)]
  by simp

lemma serve_customers_grows:
  assumes "serve_customers n draws m st = Inr st1"
  shows "\<exists>new. grows st st1 new \<and>
     (1/2 < base_service_time (snd (snd st)) * 33600000 \<and> 4/5 \<le> m
        \<and> (\<forall>k. 7/10 \<le> fst (draws k)) \<longrightarrow>
      sorted_wrt (<) (fst st # map timestamp new))"
  using assms
proof (induction n arbitrary: st)
  case 0
  then have "st1 = st" by simp
  then show ?case using grows_refl [of st] by auto
next
  case (Suc n)
  from Suc.prems obtain st' where
    one: "serve_customer draws m st = Inr st'" and
    rest: "serve_customers n draws m st' = Inr st1"
    by (auto split: sum.splits)
  from serve_customer_grows [OF one] obtain e where e: "grows st st' [e]"
    by blast
  from Suc.IH [OF rest] obtain new where
    new: "grows st' st1 new" and
    asc: "1/2 < base_service_time (snd (snd st')) * 33600000 \<and> 4/5 \<le> m
        \<and> (\<forall>k. 7/10 \<le> fst (draws k)) \<longrightarrow>
      sorted_wrt (<) (fst st' # map timestamp new)"
    by blast
  have g: "grows st st1 ([e] @ new)"
    using e new by (rule grows_trans)
  have "sorted_wrt (<) (fst st # map timestamp ([e] @ new))"
    if h: "1/2 < base_service_time (snd (snd st)) * 33600000 \<and> 4/5 \<le> m
        \<and> (\<forall>k. 7/10 \<le> fst (draws k))"
  proof -
    from h have "fst st < fst st'"
      using serve_customer_advances [OF one] by blast
    moreover have "fst st' = timestamp e"
      using grows_time [OF e] by simp
    ultimately have first: "sorted_wrt (<) (fst st # map timestamp [e])"
      by simp
    from h asc have "sorted_wrt (<) (fst st' # map timestamp new)"
      by (simp add: grows_base [OF e])
    with e first show ?thesis
      by (rule ascending_trans)
  qed
  with g show ?case by blast
qed

lemma simulate_hours_grows:
  assumes "simulate_hours hs draws st = Inr st1"
  shows "\<exists>new. grows st st1 new \<and>
     (1/2 < base_service_time (snd (snd st)) * 33600000
        \<and> (\<forall>k. 7/10 \<le> fst (draws k)) \<longrightarrow>
      sorted_wrt (<) (fst st # map timestamp new))"
  using assms
proof (induction hs arbitrary: st)
  case Nil
  then have "st1 = st" by simp
  then show ?case using grows_refl [of st] by auto
next
  case (Cons hour hs)
  from Cons.prems obtain st' where
    one: "serve_customers (snd (regime hour)) draws (fst (regime hour)) st = Inr st'" and
    rest: "simulate_hours hs draws st' = Inr st1"
    by (auto split: sum.splits)
  from serve_customers_grows [OF one] obtain xs where
    xs: "grows st st' xs" and
    ascx: "1/2 < base_service_time (snd (snd st)) * 33600000
        \<and> (\<forall>k. 7/10 \<le> fst (draws k)) \<longrightarrow>
      sorted_wrt (<) (fst st # map timestamp xs)"
    using regime_multiplier [of hour] by blast
  from Cons.IH [OF rest] obtain ys where
    ys: "grows st' st1 ys" and
    ascy: "1/2 < base_service_time (snd (snd st')) * 33600000
        \<and> (\<forall>k. 7/10 \<le> fst (draws k)) \<longrightarrow>
      sorted_wrt (<) (fst st' # map timestamp ys)"
    by blast
  have g: "grows st st1 (xs @ ys)"
    using xs ys by (rule grows_trans)
  have "sorted_wrt (<) (fst st # map timestamp (xs @ ys))"
    if h: "1/2 < base_service_time (snd (snd st)) * 33600000
        \<and> (\<forall>k. 7/10 \<le> fst (draws k))"
  proof -
    from h ascx have a: "sorted_wrt (<) (fst st # map timestamp xs)"
      by blast
    from h ascy have b: "sorted_wrt (<) (fst st' # map timestamp ys)"
      by (simp add: grows_base [OF xs])
    from xs a b show ?thesis
      by (rule ascending_trans)
  qed
  with g show ?case by blast
qed

lemma ids_from_one: "map (\<lambda>i. 1 + int i) [0..<n] = map int [1..<Suc n]"
  by (rule nth_equalityI) (simp_all del: upt_Suc)


text \<open>
  C10 (as amended). Whenever \<open>generate_synthetic_data\<close> returns, for every horizon, base
  service time and outcome of the draws, the completions it returns are those the
  simulator held before followed by the \<open>events\<close> of this call (all of them on a new
  simulator), and the customer ids of \<open>events\<close> are 1, 2, ..., in this order. If moreover
  the shortest possible service time, \<open>base_service_time * 0.8 * 0.7\<close> minutes, is more
  than half a microsecond and every complexity draw is at least 0.7, the timestamps of
  \<open>events\<close> increase strictly.
\<close>

theorem generate_synthetic_data_ordered:
  assumes "generate_synthetic_data start_time draws self = Inr r"
  shows "let events = drop (length (service_completions self)) (fst r) in
      fst r = service_completions self @ events
      \<and> map customer_id events = map int [1..<Suc (length events)]
      \<and> (1/2 < base_service_time self * 33600000 \<and> (\<forall>k. 7/10 \<le> fst (draws k)) \<longrightarrow>
           sorted_wrt (<) (map timestamp events))"
proof -
  from assms obtain t c s1 where
    run: "simulate_hours [0..hours self - 1] draws (start_time, 1, self) = Inr (t, c, s1)" and
    r: "r = (service_completions s1, s1)"
    unfolding generate_synthetic_data_def by (auto split: sum.splits)
  from simulate_hours_grows [OF run] obtain new where
    g: "grows (start_time, 1, self) (t, c, s1) new" and
    asc: "1/2 < base_service_time self * 33600000 \<and> (\<forall>k. 7/10 \<le> fst (draws k)) \<longrightarrow>
      sorted_wrt (<) (start_time # map timestamp new)"
    by auto
  from g have app: "service_completions s1 = service_completions self @ new"
    and ids: "map customer_id new = map (\<lambda>i. 1 + int i) [0..<length new]"
    by (simp_all add: grows_def)
  from app r have ev: "drop (length (service_completions self)) (fst r) = new"
    by simp
  show ?thesis
    unfolding Let_def ev using app r ids asc by (simp add: ids_from_one)
qed

theorem generate_synthetic_data_ordered_witness:
  "\<not> isl (generate_synthetic_data 63839692800000000 steady_draws (QueueSimulator_init 1 5))
   \<and> length (fst (projr
         (generate_synthetic_data 63839692800000000 steady_draws (QueueSimulator_init 1 5)))) = 15
   \<and> map customer_id (fst (projr
         (generate_synthetic_data 63839692800000000 steady_draws (QueueSimulator_init 1 5))))
       = map int [1..<16]
   \<and> sorted_wrt (<) (map timestamp (fst (projr
         (generate_synthetic_data 63839692800000000 steady_draws (QueueSimulator_init 1 5)))))"
proof -
  let ?run = "generate_synthetic_data 63839692800000000 steady_draws (QueueSimulator_init 1 5)"
  have run: "?run = Inr (projr ?run)"
    by code_simp
  have len: "length (fst (projr ?run)) = 15"
    by code_simp
  have h: "1/2 < base_service_time (QueueSimulator_init 1 5) * 33600000
      \<and> (\<forall>k. 7/10 \<le> fst (steady_draws k))"
    by (simp add: QueueSimulator_init_def steady_draws_def)
  have new: "service_completions (QueueSimulator_init 1 5) = []"
    by (simp add: QueueSimulator_init_def)
  from generate_synthetic_data_ordered [OF run] h new len
  have "map customer_id (fst (projr ?run)) = map int [1..<16]
      \<and> sorted_wrt (<) (map timestamp (fst (projr ?run)))"
    by (simp add: Let_def del: upt_Suc)
  moreover from run have "\<not> isl ?run"
    by (metis sum.disc(2))
  ultimately show ?thesis
    using len by simp
qed

text \<open>The claim as written (strictly increasing timestamps for every base service time)
  fails for the base service time 0: without interruptions all 15 completions of a
  one-hour run carry the start time.\<close>

theorem generate_zero_duration_counterexample:
  "\<not> isl (generate_synthetic_data 63839692800000000 steady_draws (QueueSimulator_init 1 0))
   \<and> \<not> sorted_wrt (<) (map timestamp (fst (projr
         (generate_synthetic_data 63839692800000000 steady_draws (QueueSimulator_init 1 0)))))"
  by code_simp

end
